theory Spec2Isabelle
  imports Complex_Main
begin

section \<open>The API handler of TICS (src/api\_handler.py)\<close>

text \<open>
  A shallow embedding of the class \<open>APIHandler\<close>: its constructor, the private
  \<open>_authenticate\<close>, \<open>refresh_token\<close> and \<open>get_data\<close>. The spec calls these
  construction, \<open>authenticate\<close>, \<open>ensureFreshToken\<close> and \<open>fetch\<close>, and calls the
  exceptions by role (\<open>ConfigurationError\<close>, \<open>AuthenticationError\<close>, \<open>TokenRefreshError\<close>);
  the source raises \<open>ValueError\<close> in the constructor and plain \<open>Exception\<close> elsewhere.

  What lies outside the file is a parameter of the model:
  \<^item> the HTTP transport is a function \<open>srv\<close> from the request sent to either an exception
    of the transport or the response; every call of \<open>session.post\<close> or \<open>session.get\<close>
    is recorded in the list of requests the operation returns;
  \<^item> each reading of \<open>time()\<close> is an argument (a real number of seconds; the rounding
    of floating point is not modelled);
  \<^item> the result of \<open>os.urandom(6).hex()\<close> is the argument \<open>cid\<close>;
  \<^item> the headers a new \<open>requests.Session()\<close> starts with are the argument \<open>lib\<close>.
  Logging changes nothing the methods return or store and is left out.
\<close>

subsection \<open>Values\<close>

text \<open>
  The JSON values read from a response with \<open>.get\<close>: \<open>None\<close> (also what \<open>.get\<close> gives
  for a missing key), booleans, integers and strings. Floats and nested containers are not
  modelled.
\<close>

datatype jval = JNone | JBool bool | JInt int | JStr string

text \<open>What \<open>response.json()\<close> does: it raises on a body that is not JSON, and gives
  either a dict or some other JSON value (on which \<open>.get\<close> raises AttributeError).\<close>

datatype body = NotJson | NonObject | Object "string \<rightharpoonup> jval"

datatype error =
    ValueError string
  | Exception string
  | AttributeError string
  | TypeError
  | JSONDecodeError
  | TransportError string

datatype http_method = GET | POST

record request =
  http_method :: http_method
  url :: string
  data :: "(string \<times> string) list option"
  req_headers :: "string \<rightharpoonup> string"

record response =
  status_code :: int
  body_text :: string
  json :: body

text \<open>
  The attributes of an \<open>APIHandler\<close> object. An attribute the code has not assigned yet
  is \<open>None\<close> here (reading it raises AttributeError in Python), except \<open>base_url\<close>,
  which is always assigned and whose \<open>None\<close> is Python's \<open>None\<close>. The fields \<open>headers\<close>
  and \<open>default_headers\<close> are those of \<open>self.session\<close>; \<open>payload\<close> is \<open>self.data\<close>, the
  dict given to \<open>json.dumps\<close> (the request keeps it as a dict, in the order of its keys);
  \<open>body_text\<close> is a response's \<open>text\<close>.
\<close>

record handler =
  base_url :: "string option"
  client_id :: string
  headers :: "string \<rightharpoonup> string"
  default_headers :: "string set"
  api_key :: "string option"
  username :: "string option"
  password :: "string option"
  payload :: "(string \<times> string) list option"
  request :: "response option"
  refresh_request :: "response option"
  token :: "jval option"
  token_expiry :: "jval option"
  token_issue_time :: "real option"
  current_time :: "real option"
  toReturn :: "(jval \<times> jval) option"
  authResult :: "(jval \<times> jval) option"

subsection \<open>Python's conversions\<close>

text \<open>Line 8. No method reads it.\<close>

definition default_url :: string where
  "default_url = ''127.0.0.1:8000''"

text \<open>\<open>str\<close> of an integer, in decimal.\<close>

definition digit_char :: "nat \<Rightarrow> char" where
  "digit_char n = ''0123456789'' ! (n mod 10)"

fun str_nat :: "nat \<Rightarrow> string" where
  "str_nat n = (if n < 10 then [digit_char n] else str_nat (n div 10) @ [digit_char n])"

declare str_nat.simps [simp del]

definition str_int :: "int \<Rightarrow> string" where
  "str_int i = (if i < 0 then CHR ''-'' # str_nat (nat (- i)) else str_nat (nat i))"

text \<open>\<open>str\<close> as an f-string applies it: to a JSON value, and to \<open>base_url\<close>.\<close>

fun py_str :: "jval \<Rightarrow> string" where
  "py_str JNone = ''None''"
| "py_str (JBool b) = (if b then ''True'' else ''False'')"
| "py_str (JInt i) = str_int i"
| "py_str (JStr s) = s"

definition fmt_opt :: "string option \<Rightarrow> string" where
  "fmt_opt s = (case s of None \<Rightarrow> ''None'' | Some u \<Rightarrow> u)"

text \<open>Truth value testing.\<close>

fun truthy :: "jval \<Rightarrow> bool" where
  "truthy JNone = False"
| "truthy (JBool b) = b"
| "truthy (JInt i) = (i \<noteq> 0)"
| "truthy (JStr s) = (s \<noteq> [])"

text \<open>A constructor argument is \<open>None\<close> (its default) or a string; the empty string is
  falsy like \<open>None\<close>. \<open>arg\<close> is the string a truthy argument holds.\<close>

definition truthy_opt :: "string option \<Rightarrow> bool" where
  "truthy_opt s = (case s of None \<Rightarrow> False | Some u \<Rightarrow> u \<noteq> [])"

definition arg :: "string option \<Rightarrow> string" where
  "arg s = (case s of None \<Rightarrow> [] | Some u \<Rightarrow> u)"

text \<open>The operand of \<open>float + x\<close>: a bool counts as 0 or 1, \<open>None\<close> and strings raise
  TypeError.\<close>

fun num_of :: "jval \<Rightarrow> real option" where
  "num_of JNone = None"
| "num_of (JBool b) = Some (if b then 1 else 0)"
| "num_of (JInt i) = Some (of_int i)"
| "num_of (JStr s) = None"

definition jget :: "(string \<rightharpoonup> jval) \<Rightarrow> string \<Rightarrow> jval" where
  "jget m k = (case m k of None \<Rightarrow> JNone | Some v \<Rightarrow> v)"

subsection \<open>The methods\<close>

text \<open>The transport either raises (the message of its exception) or returns a response.\<close>

type_synonym transport = "request \<Rightarrow> string + response"

text \<open>\<open>_authenticate\<close> (lines 30 to 70); \<open>t\<close> is the reading of \<open>time()\<close> on line 56.
  The result is the value returned or the exception raised, the object afterwards, and
  the requests sent.\<close>

definition login_request :: "handler \<Rightarrow> string \<Rightarrow> string \<Rightarrow> request" where
  "login_request self u p =
     \<lparr> http_method = POST,
       url = fmt_opt (base_url self) @ ''/auth/login'',
       data = Some [(''username'', u), (''password'', p),
                    (''client_id'', ''tics-client-'' @ client_id self)],
       req_headers = headers self \<rparr>"

definition authenticate ::
  "transport \<Rightarrow> real \<Rightarrow> handler \<Rightarrow> string \<Rightarrow> string
     \<Rightarrow> (error + jval \<times> jval) \<times> handler \<times> request list" where
  "authenticate srv t self u p =
     (let self1 = self\<lparr> username := Some u, password := Some p,
                        payload := Some [(''username'', u), (''password'', p),
                                         (''client_id'', ''tics-client-'' @ client_id self)] \<rparr>;
          req = login_request self1 u p
      in case srv req of
           Inl msg \<Rightarrow> (Inl (TransportError msg), self1, [req])
         | Inr r \<Rightarrow>
             (let self2 = self1\<lparr> request := Some r \<rparr>
              in if status_code r = 200 then
                   (case json r of
                      NotJson \<Rightarrow> (Inl JSONDecodeError, self2, [req])
                    | NonObject \<Rightarrow> (Inl (AttributeError ''get''), self2, [req])
                    | Object m \<Rightarrow>
                        if truthy (jget m ''success'') then
                          (let tok = jget m ''token'';
                               ret = (jget m ''username'', jget m ''expires_in'');
                               self3 = self2\<lparr> token := Some tok,
                                               token_expiry := Some (jget m ''expires_in''),
                                               token_issue_time := Some t,
                                               headers := (headers self2)
                                                 (''Authorization'' \<mapsto> ''Bearer '' @ py_str tok),
                                               toReturn := Some ret \<rparr>
                           in (Inr ret, self3, [req]))
                        else
                          (Inl (Exception ''Authentication failed: API returned success=False.''),
                           self2, [req]))
                 else
                   (Inl (Exception (''Authentication failed: '' @ str_int (status_code r))),
                    self2, [req])))"

text \<open>The object as lines 14 to 17 leave it.\<close>

definition new_handler :: "(string \<rightharpoonup> string) \<Rightarrow> string \<Rightarrow> string option \<Rightarrow> handler" where
  "new_handler lib cid url_arg =
     \<lparr> base_url = url_arg, client_id = cid, headers = lib,
       default_headers = {''accept: application/json''},
       api_key = None, username = None, password = None, payload = None,
       request = None, refresh_request = None,
       token = None, token_expiry = None, token_issue_time = None, current_time = None,
       toReturn = None, authResult = None \<rparr>"

text \<open>\<open>__init__\<close> (lines 13 to 28). An exception leaves no object.\<close>

definition init ::
  "transport \<Rightarrow> real \<Rightarrow> (string \<rightharpoonup> string) \<Rightarrow> string
     \<Rightarrow> string option \<Rightarrow> string option \<Rightarrow> string option \<Rightarrow> string option
     \<Rightarrow> (error + handler) \<times> request list" where
  "init srv t lib cid url_arg user pass key =
     (let self = new_handler lib cid url_arg
      in if truthy_opt user \<and> truthy_opt pass then
           (case authenticate srv t self (arg user) (arg pass) of
              (Inl e, self', sent) \<Rightarrow> (Inl e, sent)
            | (Inr res, self', sent) \<Rightarrow> (Inr (self'\<lparr> authResult := Some res \<rparr>), sent))
         else if truthy_opt key then (Inr (self\<lparr> api_key := key \<rparr>), [])
         else if truthy_opt user \<or> truthy_opt pass then
           (Inl (ValueError
              ''Both username and password must be provided together for authentication.''), [])
         else
           (Inl (ValueError
              ''No authentication credentials provided. Please provide either username/password or an API key.''), []))"

text \<open>\<open>refresh_token\<close> (lines 72 to 100); \<open>t1\<close> is the reading of \<open>time()\<close> on line 78
  and \<open>t2\<close> the one on line 90.\<close>

definition refresh_call :: "handler \<Rightarrow> request" where
  "refresh_call self =
     \<lparr> http_method = POST,
       url = fmt_opt (base_url self) @ ''/auth/refresh'',
       data = Some [(''client_id'', ''tics-client-'' @ client_id self)],
       req_headers = headers self \<rparr>"

definition refresh_token ::
  "transport \<Rightarrow> real \<Rightarrow> real \<Rightarrow> handler \<Rightarrow> (error + unit) \<times> handler \<times> request list" where
  "refresh_token srv t1 t2 self =
     (let self1 = self\<lparr> current_time := Some t1 \<rparr>
      in case token_issue_time self1 of
           None \<Rightarrow> (Inl (AttributeError ''token_issue_time''), self1, [])
         | Some issued \<Rightarrow>
       (case token_expiry self1 of
           None \<Rightarrow> (Inl (AttributeError ''token_expiry''), self1, [])
         | Some e \<Rightarrow>
       (case num_of e of
           None \<Rightarrow> (Inl TypeError, self1, [])
         | Some expiry \<Rightarrow>
           if t1 \<ge> issued + expiry - 60 then
             (let req = refresh_call self1
              in case srv req of
                   Inl msg \<Rightarrow> (Inl (TransportError msg), self1, [req])
                 | Inr r \<Rightarrow>
                     (let self2 = self1\<lparr> refresh_request := Some r \<rparr>
                      in if status_code r = 200 then
                           (case json r of
                              NotJson \<Rightarrow> (Inl JSONDecodeError, self2, [req])
                            | NonObject \<Rightarrow> (Inl (AttributeError ''get''), self2, [req])
                            | Object m \<Rightarrow>
                                if truthy (jget m ''success'') then
                                  (let tok = jget m ''token'';
                                       self3 = self2\<lparr> token := Some tok,
                                                       token_expiry := Some (jget m ''expires_in''),
                                                       token_issue_time := Some t2,
                                                       headers := (headers self2)
                                                         (''Authorization'' \<mapsto> ''Bearer '' @ py_str tok) \<rparr>
                                   in (Inr (), self3, [req]))
                                else (Inr (), self2, [req]))
                         else
                           (Inl (Exception (''Token refresh failed: '' @ str_int (status_code r))),
                            self2, [req])))
           else (Inr (), self1, []))))"

text \<open>\<open>get_data\<close> (lines 102 to 106).\<close>

definition data_request :: "handler \<Rightarrow> string \<Rightarrow> request" where
  "data_request self endpoint =
     \<lparr> http_method = GET,
       url = fmt_opt (base_url self) @ ''/api/'' @ endpoint,
       data = None,
       req_headers = headers self \<rparr>"

definition get_data ::
  "transport \<Rightarrow> handler \<Rightarrow> string \<Rightarrow> (error + body) \<times> handler \<times> request list" where
  "get_data srv self endpoint =
     (let req = data_request self endpoint
      in case srv req of
           Inl msg \<Rightarrow> (Inl (TransportError msg), self, [req])
         | Inr r \<Rightarrow>
             (let self1 = self\<lparr> request := Some r \<rparr>
              in case json r of
                   NotJson \<Rightarrow> (Inl JSONDecodeError, self1, [req])
                 | b \<Rightarrow> (Inr b, self1, [req])))"

subsection \<open>Properties of a handler's token\<close>

text \<open>The exception a refused login raises: line 67 for a 200 response, line 70 otherwise.\<close>

definition login_error :: "response \<Rightarrow> error" where
  "login_error r =
     Exception (if status_code r = 200
                then ''Authentication failed: API returned success=False.''
                else ''Authentication failed: '' @ str_int (status_code r))"

text \<open>The token, its expiry, its issue time and the session's headers are as before.\<close>

definition same_token :: "handler \<Rightarrow> handler \<Rightarrow> bool" where
  "same_token h h' =
     (token h' = token h \<and> token_expiry h' = token_expiry h
      \<and> token_issue_time h' = token_issue_time h \<and> headers h' = headers h)"

text \<open>All four were assigned together, from the fields \<open>m\<close> of one response and the clock
  reading \<open>t\<close>.\<close>

definition token_from :: "(string \<rightharpoonup> jval) \<Rightarrow> real \<Rightarrow> handler \<Rightarrow> handler \<Rightarrow> bool" where
  "token_from m t h h' =
     (token h' = Some (jget m ''token'') \<and> token_expiry h' = Some (jget m ''expires_in'')
      \<and> token_issue_time h' = Some t
      \<and> headers h' = (headers h)(''Authorization'' \<mapsto> ''Bearer '' @ py_str (jget m ''token'')))"

text \<open>The invariant of the data model: a handler whose \<open>token\<close> is assigned has
  \<open>token_expiry\<close> and \<open>token_issue_time\<close> assigned, and the session's Authorization
  header is the bearer form of that token.\<close>

definition token_inv :: "handler \<Rightarrow> bool" where
  "token_inv h =
     (case token h of
        None \<Rightarrow> True
      | Some tok \<Rightarrow> token_expiry h \<noteq> None \<and> token_issue_time h \<noteq> None
                   \<and> headers h ''Authorization'' = Some (''Bearer '' @ py_str tok))"

subsection \<open>Sample inputs\<close>

definition sample_fields :: "string \<rightharpoonup> jval" where
  "sample_fields = [''success'' \<mapsto> JBool True, ''token'' \<mapsto> JStr ''abc'',
                    ''expires_in'' \<mapsto> JInt 3600, ''username'' \<mapsto> JStr ''emma'']"

definition sample_login :: response where
  "sample_login = \<lparr> status_code = 200, body_text = ''ok'', json = Object sample_fields \<rparr>"

definition renewed_fields :: "string \<rightharpoonup> jval" where
  "renewed_fields = [''success'' \<mapsto> JBool True, ''token'' \<mapsto> JStr ''xyz'',
                     ''expires_in'' \<mapsto> JInt 1800]"

definition renewed :: response where
  "renewed = \<lparr> status_code = 200, body_text = ''ok'', json = Object renewed_fields \<rparr>"

definition refused_fields :: "string \<rightharpoonup> jval" where
  "refused_fields = [''success'' \<mapsto> JBool False]"

definition refused :: response where
  "refused = \<lparr> status_code = 200, body_text = ''no'', json = Object refused_fields \<rparr>"

definition failed :: "string \<Rightarrow> response" where
  "failed txt = \<lparr> status_code = 500, body_text = txt, json = NotJson \<rparr>"

definition fresh :: handler where
  "fresh = new_handler Map.empty ''0a1b2c3d4e5f'' (Some ''http://tics'')"

text \<open>The client that logging in as \<open>emma\<close> at time 1000 gives (lemma \<open>sample_reachable\<close>).\<close>

definition sample_client :: handler where
  "sample_client =
     fresh\<lparr> username := Some ''emma'', password := Some ''pw'',
            payload := Some [(''username'', ''emma''), (''password'', ''pw''),
                             (''client_id'', ''tics-client-0a1b2c3d4e5f'')],
            request := Some sample_login,
            token := Some (JStr ''abc''), token_expiry := Some (JInt 3600),
            token_issue_time := Some 1000,
            headers := [''Authorization'' \<mapsto> ''Bearer abc''],
            toReturn := Some (JStr ''emma'', JInt 3600),
            authResult := Some (JStr ''emma'', JInt 3600) \<rparr>"

text \<open>The client that a key and no base URL give (lemma \<open>key_reachable\<close>).\<close>

definition key_client :: handler where
  "key_client = (new_handler Map.empty ''0a1b2c3d4e5f'' None)\<lparr> api_key := Some ''k-123'' \<rparr>"

section \<open>Helper facts\<close>

lemma login_request_upd:
  "login_request (self\<lparr> username := a, password := b, payload := c \<rparr>) u p = login_request self u p"
  by (simp add: login_request_def)

lemma refresh_call_upd:
  "refresh_call (self\<lparr> current_time := a \<rparr>) = refresh_call self"
  by (simp add: refresh_call_def)

lemma str_int_500: "str_int 500 = ''500''"
  by (simp add: str_int_def str_nat.simps digit_char_def)

lemma sample_reachable:
  "init (\<lambda>_. Inr sample_login) 1000 Map.empty ''0a1b2c3d4e5f'' (Some ''http://tics'')
        (Some ''emma'') (Some ''pw'') None
   = (Inr sample_client, [login_request fresh ''emma'' ''pw''])"
  by (simp add: init_def authenticate_def Let_def truthy_opt_def arg_def fmt_opt_def
        sample_login_def sample_fields_def jget_def sample_client_def fresh_def new_handler_def
        login_request_def)

lemma key_reachable:
  "init srv t Map.empty ''0a1b2c3d4e5f'' None None None (Some ''k-123'') = (Inr key_client, [])"
  by (simp add: init_def Let_def truthy_opt_def key_client_def)

lemma sample_client_token:
  "token sample_client = Some (JStr ''abc'')"
  "token_issue_time sample_client = Some 1000"
  "token_expiry sample_client = Some (JInt 3600)"
  "headers sample_client = [''Authorization'' \<mapsto> ''Bearer abc'']"
  "base_url sample_client = Some ''http://tics''"
  "client_id sample_client = ''0a1b2c3d4e5f''"
  by (simp_all add: sample_client_def fresh_def new_handler_def)

lemma token_inv_same: "same_token h h' \<Longrightarrow> token_inv h \<Longrightarrow> token_inv h'"
  by (auto simp add: same_token_def token_inv_def split: option.splits)

lemma token_inv_from: "token_from m t h h' \<Longrightarrow> token_inv h'"
  by (simp add: token_from_def token_inv_def)

lemma authenticate_step:
  "same_token self (fst (snd (authenticate srv t self u p)))
   \<or> (\<exists>m. token_from m t self (fst (snd (authenticate srv t self u p))))"
  by (auto simp add: authenticate_def Let_def same_token_def token_from_def
        split: sum.splits body.splits)

lemma refresh_token_step:
  "same_token self (fst (snd (refresh_token srv t1 t2 self)))
   \<or> (\<exists>m. token_from m t2 self (fst (snd (refresh_token srv t1 t2 self))))"
  by (auto simp add: refresh_token_def Let_def same_token_def token_from_def
        split: sum.splits body.splits option.splits)

lemma get_data_step: "same_token self (fst (snd (get_data srv self endpoint)))"
  by (auto simp add: get_data_def Let_def same_token_def split: sum.splits body.splits)

lemma init_inv: "fst (init srv t lib cid url_arg user pass key) = Inr h \<Longrightarrow> token_inv h"
  by (auto simp add: init_def authenticate_def Let_def token_inv_def new_handler_def
        split: if_splits sum.splits body.splits prod.splits)

section \<open>The claims\<close>

subsection \<open>C1: the identity check of the constructor\<close>

text \<open>
  C1 as stated fails: a constructor call with a username, a password and an API key raises
  nothing. The first branch of the constructor (line 18) takes the pair, the key is never
  looked at, and the login request is sent.
\<close>

theorem init_both_identities_counterexample:
  "init (\<lambda>_. Inr sample_login) 1000 Map.empty ''0a1b2c3d4e5f'' (Some ''http://tics'')
        (Some ''emma'') (Some ''pw'') (Some ''k-123'')
   = (Inr sample_client, [login_request fresh ''emma'' ''pw''])"
  by (simp add: init_def authenticate_def Let_def truthy_opt_def arg_def fmt_opt_def
        sample_login_def sample_fields_def jget_def sample_client_def fresh_def new_handler_def
        login_request_def)

text \<open>
  C1, amended. With no identity supplied (no API key, and not both a username and a
  password) the constructor raises \<open>ValueError\<close>, the code's configuration error, and no
  request has been sent. With a username and a password supplied, with or without an API
  key, it raises no \<open>ValueError\<close>: it sends exactly the login request.
\<close>

theorem init_identity_check:
  "(\<not> (truthy_opt user \<and> truthy_opt pass) \<and> \<not> truthy_opt key \<longrightarrow>
      (\<exists>msg. init srv t lib cid url_arg user pass key = (Inl (ValueError msg), [])))
   \<and> (truthy_opt user \<and> truthy_opt pass \<longrightarrow>
        snd (init srv t lib cid url_arg user pass key)
          = [login_request (new_handler lib cid url_arg) (arg user) (arg pass)]
        \<and> (\<forall>msg. fst (init srv t lib cid url_arg user pass key) \<noteq> Inl (ValueError msg)))"
  by (auto simp add: init_def authenticate_def Let_def login_request_upd
        split: sum.splits body.splits prod.splits)

theorem init_identity_check_witness:
  "\<not> (truthy_opt (Some ''emma'') \<and> truthy_opt None) \<and> \<not> truthy_opt None
   \<and> (\<exists>msg. init (\<lambda>_. Inr sample_login) 1000 Map.empty ''0a1b2c3d4e5f'' None
                (Some ''emma'') None None
              = (Inl (ValueError msg), []))
   \<and> truthy_opt (Some ''emma'') \<and> truthy_opt (Some ''pw'')
   \<and> snd (init (\<lambda>_. Inr sample_login) 1000 Map.empty ''0a1b2c3d4e5f'' (Some ''http://tics'')
             (Some ''emma'') (Some ''pw'') (Some ''k-123''))
        = [login_request fresh ''emma'' ''pw'']"
  using init_identity_check [of "Some ''emma''" None None "\<lambda>_. Inr sample_login" 1000 Map.empty
          "''0a1b2c3d4e5f''" None]
        init_identity_check [of "Some ''emma''" "Some ''pw''" "Some ''k-123''"
          "\<lambda>_. Inr sample_login" 1000 Map.empty "''0a1b2c3d4e5f''" "Some ''http://tics''"]
  by (simp add: truthy_opt_def arg_def fresh_def)

subsection \<open>C2: the key identity\<close>




subsection \<open>C3: a successful login\<close>

text \<open>
  C3. When the login request is answered with status 200 and a JSON object whose
  \<open>success\<close> is true, \<open>_authenticate\<close> returns the pair of the response's \<open>username\<close> and
  \<open>expires_in\<close> (the dict with keys username and timeToExpire), stores the response's
  \<open>token\<close>, the clock reading taken during the call and the response's \<open>expires_in\<close>, and
  sets the session's Authorization header to the bearer form of the token. It has sent the
  login request and nothing else.
\<close>

theorem authenticate_success:
  assumes "srv (login_request self u p) = Inr r"
    and "status_code r = 200"
    and "json r = Object m"
    and "jget m ''success'' = JBool True"
  shows "fst (authenticate srv t self u p) = Inr (jget m ''username'', jget m ''expires_in'')
       \<and> token (fst (snd (authenticate srv t self u p))) = Some (jget m ''token'')
       \<and> token_issue_time (fst (snd (authenticate srv t self u p))) = Some t
       \<and> token_expiry (fst (snd (authenticate srv t self u p))) = Some (jget m ''expires_in'')
       \<and> headers (fst (snd (authenticate srv t self u p)))
           = (headers self)(''Authorization'' \<mapsto> ''Bearer '' @ py_str (jget m ''token''))
       \<and> snd (snd (authenticate srv t self u p)) = [login_request self u p]"
  using assms by (simp add: authenticate_def Let_def login_request_upd)

theorem authenticate_success_witness:
  "(\<lambda>_. Inr sample_login) (login_request fresh ''emma'' ''pw'') = Inr sample_login
   \<and> status_code sample_login = 200 \<and> json sample_login = Object sample_fields
   \<and> jget sample_fields ''success'' = JBool True
   \<and> fst (authenticate (\<lambda>_. Inr sample_login) 1000 fresh ''emma'' ''pw'')
       = Inr (JStr ''emma'', JInt 3600)
   \<and> token (fst (snd (authenticate (\<lambda>_. Inr sample_login) 1000 fresh ''emma'' ''pw'')))
       = Some (JStr ''abc'')
   \<and> token_issue_time (fst (snd (authenticate (\<lambda>_. Inr sample_login) 1000 fresh ''emma'' ''pw'')))
       = Some 1000
   \<and> token_expiry (fst (snd (authenticate (\<lambda>_. Inr sample_login) 1000 fresh ''emma'' ''pw'')))
       = Some (JInt 3600)
   \<and> headers (fst (snd (authenticate (\<lambda>_. Inr sample_login) 1000 fresh ''emma'' ''pw'')))
       ''Authorization'' = Some ''Bearer abc''"
proof -
  have a: "(\<lambda>_. Inr sample_login) (login_request fresh ''emma'' ''pw'') = Inr sample_login"
    by simp
  have b: "status_code sample_login = 200" and c: "json sample_login = Object sample_fields"
    by (simp_all add: sample_login_def)
  have d: "jget sample_fields ''success'' = JBool True"
    by (simp add: jget_def sample_fields_def)
  have e: "jget sample_fields ''username'' = JStr ''emma''"
    "jget sample_fields ''expires_in'' = JInt 3600" "jget sample_fields ''token'' = JStr ''abc''"
    by (simp_all add: jget_def sample_fields_def)
  show ?thesis
    using authenticate_success [OF a b c d, of 1000] b c d e by (simp add: fresh_def new_handler_def)
qed

subsection \<open>C4: a refused login\<close>

text \<open>
  C4 as stated fails in one detail: the exception of a non-200 login carries the status
  code only. The response text goes to the log (line 69) and not into the exception
  (line 70), so two 500 responses with different texts raise the same exception.
\<close>

theorem authenticate_error_text_counterexample:
  "fst (authenticate (\<lambda>_. Inr (failed ''disk full'')) 1000 fresh ''emma'' ''pw'')
     = Inl (Exception ''Authentication failed: 500'')
   \<and> fst (authenticate (\<lambda>_. Inr (failed ''come back later'')) 1000 fresh ''emma'' ''pw'')
     = Inl (Exception ''Authentication failed: 500'')"
  by (simp add: authenticate_def Let_def failed_def str_int_500)

text \<open>
  C4, amended. When the login request is answered with a status other than 200, or with a
  JSON object whose \<open>success\<close> is false, \<open>_authenticate\<close> raises an exception, whose
  message carries the status code in the non-200 case; it leaves the token, its expiry,
  its issue time and the session's headers as they were, so a handler that held no token
  holds none. The constructor, which calls it on the new object, raises the same exception
  and no client exists.
\<close>

theorem authenticate_failure:
  assumes "srv (login_request self u p) = Inr r"
    and "status_code r \<noteq> 200 \<or> (json r = Object m \<and> jget m ''success'' = JBool False)"
  shows "fst (authenticate srv t self u p) = Inl (login_error r)
       \<and> same_token self (fst (snd (authenticate srv t self u p)))
       \<and> (token self = None \<longrightarrow> token (fst (snd (authenticate srv t self u p))) = None)
       \<and> snd (snd (authenticate srv t self u p)) = [login_request self u p]
       \<and> (self = new_handler lib cid url_arg \<and> u \<noteq> [] \<and> p \<noteq> [] \<longrightarrow>
            init srv t lib cid url_arg (Some u) (Some p) key
              = (Inl (login_error r), [login_request self u p]))"
  using assms
  by (auto simp add: authenticate_def init_def Let_def login_request_upd same_token_def
        login_error_def truthy_opt_def arg_def)

theorem authenticate_failure_witness:
  "(\<lambda>_. Inr (failed ''disk full'')) (login_request fresh ''emma'' ''pw'') = Inr (failed ''disk full'')
   \<and> status_code (failed ''disk full'') \<noteq> 200
   \<and> fst (authenticate (\<lambda>_. Inr (failed ''disk full'')) 1000 fresh ''emma'' ''pw'')
       = Inl (Exception ''Authentication failed: 500'')
   \<and> token (fst (snd (authenticate (\<lambda>_. Inr (failed ''disk full'')) 1000 fresh ''emma'' ''pw''))) = None
   \<and> init (\<lambda>_. Inr (failed ''disk full'')) 1000 Map.empty ''0a1b2c3d4e5f'' (Some ''http://tics'')
          (Some ''emma'') (Some ''pw'') None
       = (Inl (Exception ''Authentication failed: 500''), [login_request fresh ''emma'' ''pw''])
   \<and> (\<lambda>_. Inr refused) (login_request fresh ''emma'' ''pw'') = Inr refused
   \<and> json refused = Object refused_fields \<and> jget refused_fields ''success'' = JBool False
   \<and> fst (authenticate (\<lambda>_. Inr refused) 1000 fresh ''emma'' ''pw'')
       = Inl (Exception ''Authentication failed: API returned success=False.'')
   \<and> token (fst (snd (authenticate (\<lambda>_. Inr refused) 1000 fresh ''emma'' ''pw''))) = None"
proof -
  have a: "(\<lambda>_. Inr (failed ''disk full'')) (login_request fresh ''emma'' ''pw'')
             = Inr (failed ''disk full'')"
    by simp
  have b: "status_code (failed ''disk full'') \<noteq> 200"
    by (simp add: failed_def)
  have c: "(\<lambda>_. Inr refused) (login_request fresh ''emma'' ''pw'') = Inr refused"
    by simp
  have d: "json refused = Object refused_fields \<and> jget refused_fields ''success'' = JBool False"
    by (simp add: refused_def refused_fields_def jget_def)
  have e: "status_code refused = 200" "token fresh = None"
    "fresh = new_handler Map.empty ''0a1b2c3d4e5f'' (Some ''http://tics'')"
    by (simp_all add: refused_def fresh_def new_handler_def)
  from b have b': "status_code (failed ''disk full'') \<noteq> 200
      \<or> (json (failed ''disk full'') = Object Map.empty \<and> jget Map.empty ''success'' = JBool False)"
    by simp
  from d have d': "status_code refused \<noteq> 200
      \<or> (json refused = Object refused_fields \<and> jget refused_fields ''success'' = JBool False)"
    by simp
  show ?thesis
    using authenticate_failure [where t = 1000 and lib = Map.empty and cid = "''0a1b2c3d4e5f''"
          and url_arg = "Some ''http://tics''" and key = None, OF a b']
      authenticate_failure [where t = 1000, OF c d'] b d e
    by (simp add: login_error_def failed_def str_int_500)
qed

subsection \<open>C5: when a refresh request is sent\<close>



subsection \<open>C6: a refresh answered with success false\<close>

text \<open>
  C6. When \<open>refresh_token\<close> sends its request and the answer has status 200 and a JSON
  object whose \<open>success\<close> is false, it raises nothing and the token, its issue time, its
  expiry and the session's headers (the Authorization header among them) are unchanged.
\<close>

theorem refresh_soft_failure:
  assumes "snd (snd (refresh_token srv t1 t2 self)) \<noteq> []"
    and "srv (refresh_call self) = Inr r"
    and "status_code r = 200"
    and "json r = Object m"
    and "jget m ''success'' = JBool False"
  shows "fst (refresh_token srv t1 t2 self) = Inr ()
       \<and> token (fst (snd (refresh_token srv t1 t2 self))) = token self
       \<and> token_issue_time (fst (snd (refresh_token srv t1 t2 self))) = token_issue_time self
       \<and> token_expiry (fst (snd (refresh_token srv t1 t2 self))) = token_expiry self
       \<and> headers (fst (snd (refresh_token srv t1 t2 self))) = headers self"
  using assms
  by (auto simp add: refresh_token_def Let_def refresh_call_upd split: option.splits if_splits)

theorem refresh_soft_failure_witness:
  "snd (snd (refresh_token (\<lambda>_. Inr refused) 4540 4541 sample_client)) \<noteq> []
   \<and> (\<lambda>_. Inr refused) (refresh_call sample_client) = Inr refused
   \<and> status_code refused = 200 \<and> json refused = Object refused_fields
   \<and> jget refused_fields ''success'' = JBool False
   \<and> fst (refresh_token (\<lambda>_. Inr refused) 4540 4541 sample_client) = Inr ()
   \<and> token (fst (snd (refresh_token (\<lambda>_. Inr refused) 4540 4541 sample_client)))
        = Some (JStr ''abc'')
   \<and> token_issue_time (fst (snd (refresh_token (\<lambda>_. Inr refused) 4540 4541 sample_client)))
        = Some 1000
   \<and> token_expiry (fst (snd (refresh_token (\<lambda>_. Inr refused) 4540 4541 sample_client)))
        = Some (JInt 3600)
   \<and> headers (fst (snd (refresh_token (\<lambda>_. Inr refused) 4540 4541 sample_client)))
        ''Authorization'' = Some ''Bearer abc''"
proof -
  have a: "snd (snd (refresh_token (\<lambda>_. Inr refused) 4540 4541 sample_client)) \<noteq> []"
    by (simp add: refresh_token_def Let_def sample_client_def refused_def refused_fields_def jget_def)
  have b: "(\<lambda>_. Inr refused) (refresh_call sample_client) = Inr refused"
    by simp
  have c: "status_code refused = 200" and d: "json refused = Object refused_fields"
    by (simp_all add: refused_def)
  have e: "jget refused_fields ''success'' = JBool False"
    by (simp add: refused_fields_def jget_def)
  show ?thesis
    using refresh_soft_failure [OF a b c d e] a c d e by (simp add: sample_client_token)
qed

subsection \<open>C7: a refresh answered with another status\<close>

text \<open>
  C7. When \<open>refresh_token\<close> sends its request and the answer has a status other than 200,
  it raises the exception whose message is \<open>Token refresh failed:\<close> followed by the status
  code, and the token, its issue time, its expiry and the session's headers are unchanged.
\<close>

theorem refresh_http_failure:
  assumes "snd (snd (refresh_token srv t1 t2 self)) \<noteq> []"
    and "srv (refresh_call self) = Inr r"
    and "status_code r \<noteq> 200"
  shows "fst (refresh_token srv t1 t2 self)
           = Inl (Exception (''Token refresh failed: '' @ str_int (status_code r)))
       \<and> token (fst (snd (refresh_token srv t1 t2 self))) = token self
       \<and> token_issue_time (fst (snd (refresh_token srv t1 t2 self))) = token_issue_time self
       \<and> token_expiry (fst (snd (refresh_token srv t1 t2 self))) = token_expiry self
       \<and> headers (fst (snd (refresh_token srv t1 t2 self))) = headers self"
  using assms
  by (auto simp add: refresh_token_def Let_def refresh_call_upd split: option.splits if_splits)

theorem refresh_http_failure_witness:
  "snd (snd (refresh_token (\<lambda>_. Inr (failed ''busy'')) 4540 4541 sample_client)) \<noteq> []
   \<and> (\<lambda>_. Inr (failed ''busy'')) (refresh_call sample_client) = Inr (failed ''busy'')
   \<and> status_code (failed ''busy'') \<noteq> 200
   \<and> fst (refresh_token (\<lambda>_. Inr (failed ''busy'')) 4540 4541 sample_client)
        = Inl (Exception ''Token refresh failed: 500'')
   \<and> token (fst (snd (refresh_token (\<lambda>_. Inr (failed ''busy'')) 4540 4541 sample_client)))
        = Some (JStr ''abc'')
   \<and> token_issue_time (fst (snd (refresh_token (\<lambda>_. Inr (failed ''busy'')) 4540 4541 sample_client)))
        = Some 1000
   \<and> token_expiry (fst (snd (refresh_token (\<lambda>_. Inr (failed ''busy'')) 4540 4541 sample_client)))
        = Some (JInt 3600)
   \<and> headers (fst (snd (refresh_token (\<lambda>_. Inr (failed ''busy'')) 4540 4541 sample_client)))
        ''Authorization'' = Some ''Bearer abc''"
proof -
  have a: "snd (snd (refresh_token (\<lambda>_. Inr (failed ''busy'')) 4540 4541 sample_client)) \<noteq> []"
    by (simp add: refresh_token_def Let_def sample_client_def failed_def)
  have b: "(\<lambda>_. Inr (failed ''busy'')) (refresh_call sample_client) = Inr (failed ''busy'')"
    by simp
  have c: "status_code (failed ''busy'') \<noteq> 200"
    by (simp add: failed_def)
  have f: "status_code (failed ''busy'') = 500"
    by (simp add: failed_def)
  show ?thesis
    using refresh_http_failure [OF a b c] a c f by (simp add: str_int_500 sample_client_token)
qed

subsection \<open>C8: refreshing a key client\<close>

text \<open>
  C8 does not hold of the code. A client built from an API key has no
  \<open>token_issue_time\<close>: \<open>refresh_token\<close> stores the clock reading in \<open>current_time\<close> and
  then raises AttributeError on line 79. It sends no request. The method has no case for
  the key identity the constructor accepts.
\<close>

theorem refresh_token_key_identity:
  "init srv t lib cid url_arg None None (Some ''k-123'')
     = (Inr ((new_handler lib cid url_arg)\<lparr> api_key := Some ''k-123'' \<rparr>), [])
   \<and> refresh_token srv' t1 t2 ((new_handler lib cid url_arg)\<lparr> api_key := Some ''k-123'' \<rparr>)
     = (Inl (AttributeError ''token_issue_time''),
        (new_handler lib cid url_arg)\<lparr> api_key := Some ''k-123'', current_time := Some t1 \<rparr>, [])"
  by (simp add: init_def Let_def truthy_opt_def refresh_token_def new_handler_def)

subsection \<open>C9: the default base URL\<close>

text \<open>
  C9 does not hold of the code. Line 8 defines \<open>default_url\<close> with the comment that it is
  the default, overridden by the URL given to the constructor; the constructor stores its
  argument as it is, so without a base URL the attribute is \<open>None\<close> and \<open>get_data\<close>
  formats it into the URL \<open>None/api/widgets\<close>.
\<close>

theorem get_data_without_base_url:
  "init srv t lib cid None None None (Some ''k-123'')
     = (Inr ((new_handler lib cid None)\<lparr> api_key := Some ''k-123'' \<rparr>), [])
   \<and> map url (snd (snd (get_data srv' ((new_handler lib cid None)\<lparr> api_key := Some ''k-123'' \<rparr>)
                         ''widgets'')))
     = [''None/api/widgets'']
   \<and> ''None/api/widgets'' \<noteq> default_url @ ''/api/widgets''"
  by (auto simp add: init_def Let_def truthy_opt_def get_data_def data_request_def new_handler_def
        fmt_opt_def default_url_def split: sum.splits body.splits)

subsection \<open>C10: the invariant of the token\<close>

text \<open>
  C10. Every client the constructor returns satisfies \<open>token_inv\<close>, and \<open>_authenticate\<close>,
  \<open>refresh_token\<close> and \<open>get_data\<close> preserve it, whatever they return or raise: when
  \<open>token\<close> is assigned, so are \<open>token_expiry\<close> and \<open>token_issue_time\<close>, and the session's
  Authorization header is \<open>Bearer\<close> followed by that token. Moreover each method either
  leaves the token, its expiry, its issue time and the headers as they were, or assigns all
  four together from one response and the clock reading of that call (\<open>get_data\<close> always
  leaves them). Assigned means that the attribute has been set; the value is what \<open>.get\<close>
  gave, which is \<open>None\<close> for a field the response lacks.
\<close>

theorem token_invariant:
  "(fst (init srv t lib cid url_arg user pass key) = Inr h \<longrightarrow> token_inv h)
   \<and> (token_inv self \<longrightarrow>
        token_inv (fst (snd (authenticate srv t self u p)))
        \<and> token_inv (fst (snd (refresh_token srv t1 t2 self)))
        \<and> token_inv (fst (snd (get_data srv self endpoint))))
   \<and> (same_token self (fst (snd (authenticate srv t self u p)))
        \<or> (\<exists>m. token_from m t self (fst (snd (authenticate srv t self u p)))))
   \<and> (same_token self (fst (snd (refresh_token srv t1 t2 self)))
        \<or> (\<exists>m. token_from m t2 self (fst (snd (refresh_token srv t1 t2 self)))))
   \<and> same_token self (fst (snd (get_data srv self endpoint)))"
  using init_inv [of srv t lib cid url_arg user pass key h]
    authenticate_step [of self srv t u p] refresh_token_step [of self srv t1 t2]
    get_data_step [of self srv endpoint]
  by (auto intro: token_inv_same token_inv_from)

theorem token_invariant_witness:
  "fst (init (\<lambda>_. Inr sample_login) 1000 Map.empty ''0a1b2c3d4e5f'' (Some ''http://tics'')
          (Some ''emma'') (Some ''pw'') None) = Inr sample_client
   \<and> token_inv sample_client
   \<and> token_inv (fst (snd (authenticate (\<lambda>_. Inr sample_login) 1000 sample_client ''emma'' ''pw'')))
   \<and> token_inv (fst (snd (refresh_token (\<lambda>_. Inr sample_login) 4540 4541 sample_client)))
   \<and> token_inv (fst (snd (get_data (\<lambda>_. Inr sample_login) sample_client ''widgets'')))"
proof -
  have a: "fst (init (\<lambda>_. Inr sample_login) 1000 Map.empty ''0a1b2c3d4e5f'' (Some ''http://tics'')
          (Some ''emma'') (Some ''pw'') None) = Inr sample_client"
    by (simp add: sample_reachable)
  show ?thesis
    using a token_invariant [of "\<lambda>_. Inr sample_login" 1000 Map.empty "''0a1b2c3d4e5f''"
        "Some ''http://tics''" "Some ''emma''" "Some ''pw''" None sample_client sample_client
        "''emma''" "''pw''" 4540 4541 "''widgets''"]
    by simp
qed

text \<open>A refresh that succeeds replaces the token: the new header is that of the new
  token.\<close>

lemma refresh_renews:
  "fst (refresh_token (\<lambda>_. Inr renewed) 4540 4541 sample_client) = Inr ()
   \<and> token (fst (snd (refresh_token (\<lambda>_. Inr renewed) 4540 4541 sample_client)))
       = Some (JStr ''xyz'')
   \<and> headers (fst (snd (refresh_token (\<lambda>_. Inr renewed) 4540 4541 sample_client)))
       ''Authorization'' = Some ''Bearer xyz''"
  by (simp add: refresh_token_def Let_def sample_client_def renewed_def renewed_fields_def
        jget_def refresh_call_def)

end
